theory Spec2Isabelle
  imports Complex_Main
begin

section \<open>The navigation drawer of the catalog (nav-drawer.ts)\<close>

subsection \<open>State: the component field and the shared signals\<close>

text \<open>
  The component has one reactive field, \<open>isCollapsible\<close>, initialised to \<open>false\<close>.
  The three signals are module-level cells imported from the catalog's signal modules; the
  component reads and writes them through \<open>.value\<close>. All four are booleans, and together
  they are everything \<open>render\<close> reads.
\<close>

record state =
  isCollapsible :: bool
  drawerOpenSignal :: bool
  inertContentSignal :: bool
  inertSidebarSignal :: bool

text \<open>
  The field initialiser \<open>@state() private isCollapsible = false\<close>: a freshly constructed
  component, beside whatever the shared signals hold at that moment.
\<close>

definition constructed :: "bool \<Rightarrow> bool \<Rightarrow> bool \<Rightarrow> state" where
  "constructed openv contentv sidebarv =
     \<lparr>isCollapsible = False, drawerOpenSignal = openv,
      inertContentSignal = contentv, inertSidebarSignal = sidebarv\<rparr>"

subsection \<open>What render produces\<close>

text \<open>
  The table \<open>EASING\<close> is imported from the motion module of the component library.
  \<open>render\<close> passes two of its entries on and never looks inside them, so the table is a
  parameter with those two entries.
\<close>

record easing_table =
  EMPHASIZED :: string
  EMPHASIZED_ACCELERATE :: string

record keyframe_options =
  duration :: int
  easing :: string

datatype keyframes = fadeIn | fadeOut

text \<open>The argument of the \<open>animate\<close> directive; \<open>anim_in\<close> and \<open>anim_out\<close> are its
  \<open>in\<close> and \<open>out\<close> entries, absent on the aside and on the slot.\<close>

record animate_options =
  properties :: "string list"
  keyframeOptions :: keyframe_options
  anim_in :: "keyframes option"
  anim_out :: "keyframes option"

text \<open>
  The template, reduced to its dynamic parts, in document order: the
  \<open>data-animation-speed\<close> attribute of the root, the class of the body, the \<open>inert\<close>
  attribute of the spacer, the scrim (\<open>None\<close> where the template has \<open>nothing\<close>; its click
  handler is \<open>onScrimClick\<close>), the \<open>inert\<close> attribute and the directive of the aside, the
  directive of the slot inside it, and the \<open>inert\<close> attribute of the content.
\<close>

record template =
  data_animation_speed :: string
  body_class :: string
  spacer_inert :: bool
  scrim :: "animate_options option"
  aside_inert :: bool
  aside_animate :: animate_options
  slot_animate :: animate_options
  content_inert :: bool

subsection \<open>The local constants of render\<close>

definition showModal :: "state \<Rightarrow> bool" where
  "showModal s = (isCollapsible s \<and> drawerOpenSignal s)"

definition drawerSlideAnimationDuration :: "state \<Rightarrow> int" where
  "drawerSlideAnimationDuration s = (if showModal s then 500 else 150)"

definition drawerContentOpacityDuration :: "state \<Rightarrow> int" where
  "drawerContentOpacityDuration s = (if showModal s then 300 else 150)"

definition scrimOpacityDuration :: int where
  "scrimOpacityDuration = 150"

definition drawerSlideAnimationEasing :: "easing_table \<Rightarrow> state \<Rightarrow> string" where
  "drawerSlideAnimationEasing E s =
     (if showModal s then EMPHASIZED E else EMPHASIZED_ACCELERATE E)"

subsection \<open>render\<close>

text \<open>
  \<open>render\<close> reads the field and the three signals and assigns to none of them: the state
  it returns is the state it was given.
\<close>

definition render :: "easing_table \<Rightarrow> state \<Rightarrow> template \<times> state" where
  "render E s =
     (\<lparr>data_animation_speed = (if showModal s then ''long'' else ''short''),
       body_class = ''body  '' @ (if drawerOpenSignal s then ''open'' else ''''),
       spacer_inert = inertSidebarSignal s,
       scrim =
         (if showModal s
          then Some \<lparr>properties = [''opacity''],
                      keyframeOptions =
                        \<lparr>duration = scrimOpacityDuration, easing = ''linear''\<rparr>,
                      anim_in = Some fadeIn, anim_out = Some fadeOut\<rparr>
          else None),
       aside_inert = (isCollapsible s \<and> \<not> drawerOpenSignal s),
       aside_animate =
         \<lparr>properties = [''transform''],
          keyframeOptions =
            \<lparr>duration = drawerSlideAnimationDuration s,
             easing = drawerSlideAnimationEasing E s\<rparr>,
          anim_in = None, anim_out = None\<rparr>,
       slot_animate =
         \<lparr>properties = [''opacity''],
          keyframeOptions =
            \<lparr>duration = drawerContentOpacityDuration s, easing = ''linear''\<rparr>,
          anim_in = None, anim_out = None\<rparr>,
       content_inert = (showModal s \<or> inertContentSignal s)\<rparr>,
      s)"

subsection \<open>The handlers\<close>

definition onScrimClick :: "state \<Rightarrow> state" where
  "onScrimClick s = s\<lparr>drawerOpenSignal := False\<rparr>"

text \<open>
  The browser's answer to the media query \<open>(max-width: t px)\<close> on a viewport of width
  \<open>w\<close>: the query matches when the viewport is at most \<open>t\<close> wide. This is the platform,
  not the component; the component only chooses the threshold.
\<close>

definition matchMedia_max_width :: "real \<Rightarrow> real \<Rightarrow> bool" where
  "matchMedia_max_width thresholdPx widthPx = (widthPx \<le> thresholdPx)"

text \<open>\<open>firstUpdated\<close> on a viewport of the given width: the query is
  \<open>(max-width: 1500px)\<close>, and its \<open>matches\<close> is stored in the field.\<close>

definition firstUpdated :: "real \<Rightarrow> state \<Rightarrow> state" where
  "firstUpdated widthPx s = s\<lparr>isCollapsible := matchMedia_max_width 1500 widthPx\<rparr>"

text \<open>The listener that \<open>firstUpdated\<close> registers for the query's \<open>change\<close> event; its
  argument is \<open>e.matches\<close>.\<close>

definition onMediaChange :: "bool \<Rightarrow> state \<Rightarrow> state" where
  "onMediaChange matches s = s\<lparr>isCollapsible := matches\<rparr>"

subsection \<open>Sequences of events\<close>

text \<open>
  What can happen to a mounted drawer: the host writes the open signal, the scrim is
  clicked, or the media query changes. The component re-renders after each.
\<close>

datatype event = OpenSignalSet bool | ScrimClick | MediaChange bool

fun step :: "event \<Rightarrow> state \<Rightarrow> state" where
  "step (OpenSignalSet v) s = s\<lparr>drawerOpenSignal := v\<rparr>"
| "step ScrimClick s = onScrimClick s"
| "step (MediaChange m) s = onMediaChange m s"

fun run :: "event list \<Rightarrow> state \<Rightarrow> state" where
  "run [] s = s"
| "run (e # es) s = run es (step e s)"

text \<open>The states after each event of a sequence, in order, each with its render.\<close>

fun renders :: "easing_table \<Rightarrow> event list \<Rightarrow> state \<Rightarrow> (state \<times> template) list" where
  "renders E [] s = []"
| "renders E (e # es) s =
     (step e s, fst (render E (step e s))) # renders E es (step e s)"

subsection \<open>The spec's vocabulary\<close>

text \<open>The spec speaks of a two-valued mode where the code has the boolean field.\<close>

datatype ViewportMode = Collapsible | Inline

definition mode :: "state \<Rightarrow> ViewportMode" where
  "mode s = (if isCollapsible s then Collapsible else Inline)"

text \<open>The classifier as the spec words it: \<open>Collapsible\<close> if the width is at most the
  threshold, \<open>Inline\<close> otherwise.\<close>

definition spec_classify :: "real \<Rightarrow> real \<Rightarrow> ViewportMode" where
  "spec_classify widthPx thresholdPx =
     (if widthPx \<le> thresholdPx then Collapsible else Inline)"

text \<open>Whether a render shows the scrim.\<close>

definition showScrim :: "template \<Rightarrow> bool" where
  "showScrim t = (case scrim t of None \<Rightarrow> False | Some a \<Rightarrow> True)"

text \<open>A sample table for concrete runs: its entries are the names the spec gives the
  two curves; the library's own entries are not needed for any property below.\<close>

definition EASING_named :: easing_table where
  "EASING_named =
     \<lparr>EMPHASIZED = ''emphasized'', EMPHASIZED_ACCELERATE = ''emphasized-accelerate''\<rparr>"

text \<open>
  The timing a render hands to the renderer: the duration of the aside's slide, the
  duration of the slot's opacity change, the easing of the slide, each read off the
  template, and the duration set aside for the scrim's fade.
\<close>

definition timing :: "easing_table \<Rightarrow> state \<Rightarrow> int \<times> int \<times> string \<times> int" where
  "timing E s =
     (duration (keyframeOptions (aside_animate (fst (render E s)))),
      duration (keyframeOptions (slot_animate (fst (render E s)))),
      easing (keyframeOptions (aside_animate (fst (render E s)))),
      scrimOpacityDuration)"

text \<open>The durations a template carries: slide, content opacity, and the scrim's fade
  where there is a scrim.\<close>

definition durations_of :: "template \<Rightarrow> int \<times> int \<times> int option" where
  "durations_of t =
     (duration (keyframeOptions (aside_animate t)),
      duration (keyframeOptions (slot_animate t)),
      map_option (\<lambda>a. duration (keyframeOptions a)) (scrim t))"

text \<open>
  In the template the aside and the scrim are children of the spacer, and an element
  with the \<open>inert\<close> attribute makes its whole subtree inert. So the drawer panel cannot
  be focused when the spacer or the aside itself carries the attribute.
\<close>

definition panel_unfocusable :: "template \<Rightarrow> bool" where
  "panel_unfocusable t = (spacer_inert t \<or> aside_inert t)"

section \<open>Properties\<close>

lemma render_state: "snd (render E s) = s"
  by (simp add: render_def)

lemma showScrim_render: "showScrim (fst (render E s)) = showModal s"
  by (simp add: render_def showScrim_def)

lemma renders_shows:
  "(s', t) \<in> set (renders E es s) \<Longrightarrow> showScrim t = showModal s'"
  by (induction es arbitrary: s) (auto simp: showScrim_render)

text \<open>
  C1. For both modes and both values of the open signal, a render shows the scrim exactly
  when the mode is Collapsible and the open signal is true; and this holds for the render
  after every event of every sequence of open-signal writes, scrim clicks and mode flips,
  from every starting state.
\<close>

theorem showScrim_invariant:
  "showScrim (fst (render E s)) = (mode s = Collapsible \<and> drawerOpenSignal s = True)
   \<and> showScrim (fst (render E (run es s0)))
       = (mode (run es s0) = Collapsible \<and> drawerOpenSignal (run es s0) = True)
   \<and> (\<forall>(s', t) \<in> set (renders E es s0).
         showScrim t = (mode s' = Collapsible \<and> drawerOpenSignal s' = True))"
proof -
  have m: "\<And>x. (mode x = Collapsible \<and> drawerOpenSignal x = True) = showModal x"
    by (simp add: mode_def showModal_def)
  have a: "showScrim (fst (render E s)) = (mode s = Collapsible \<and> drawerOpenSignal s = True)"
    by (simp only: m showScrim_render)
  have b: "showScrim (fst (render E (run es s0)))
     = (mode (run es s0) = Collapsible \<and> drawerOpenSignal (run es s0) = True)"
    by (simp only: m showScrim_render)
  have c: "\<forall>(s', t) \<in> set (renders E es s0).
     showScrim t = (mode s' = Collapsible \<and> drawerOpenSignal s' = True)"
    using renders_shows by (auto simp only: m)
  from a b c show ?thesis by (intro conjI)
qed

theorem showScrim_invariant_witness:
  "(\<lparr>isCollapsible = True, drawerOpenSignal = True,
      inertContentSignal = False, inertSidebarSignal = False\<rparr>,
     fst (render EASING_named
       \<lparr>isCollapsible = True, drawerOpenSignal = True,
        inertContentSignal = False, inertSidebarSignal = False\<rparr>))
     \<in> set (renders EASING_named [MediaChange True, OpenSignalSet True, ScrimClick]
               (constructed False False False))
   \<and> showScrim (fst (render EASING_named
         \<lparr>isCollapsible = True, drawerOpenSignal = True,
          inertContentSignal = False, inertSidebarSignal = False\<rparr>))
   \<and> \<not> showScrim (fst (render EASING_named
         (run [MediaChange True, OpenSignalSet True, ScrimClick]
            (constructed False False False))))"
  using showScrim_invariant [where E = EASING_named
      and s = "\<lparr>isCollapsible = True, drawerOpenSignal = True,
                inertContentSignal = False, inertSidebarSignal = False\<rparr>"
      and es = "[MediaChange True, OpenSignalSet True, ScrimClick]"
      and ?s0.0 = "constructed False False False"]
  by (simp add: mode_def constructed_def onMediaChange_def onScrimClick_def)

lemma timing_eq:
  "timing E s =
     (if showModal s then (500, 300, EMPHASIZED E, 150)
      else (150, 150, EMPHASIZED_ACCELERATE E, 150))"
  by (simp add: timing_def render_def drawerSlideAnimationDuration_def
      drawerContentOpacityDuration_def drawerSlideAnimationEasing_def
      scrimOpacityDuration_def)

lemma mode_open_showModal:
  "(mode s = Collapsible \<and> drawerOpenSignal s) = showModal s"
  by (simp add: mode_def showModal_def)

lemma showModal_ex: "\<exists>s. showModal s"
proof
  show "showModal \<lparr>isCollapsible = True, drawerOpenSignal = True,
          inertContentSignal = False, inertSidebarSignal = False\<rparr>"
    by (simp add: showModal_def)
qed

lemma not_showModal_ex: "\<exists>s. \<not> showModal s"
proof
  show "\<not> showModal \<lparr>isCollapsible = False, drawerOpenSignal = False,
          inertContentSignal = False, inertSidebarSignal = False\<rparr>"
    by (simp add: showModal_def)
qed

lemma range_timing:
  "range (timing E) =
     {(500, 300, EMPHASIZED E, 150), (150, 150, EMPHASIZED_ACCELERATE E, 150)}"
proof
  show "range (timing E)
      \<subseteq> {(500, 300, EMPHASIZED E, 150), (150, 150, EMPHASIZED_ACCELERATE E, 150)}"
    by (auto simp: timing_eq)
next
  obtain a where a: "showModal a" using showModal_ex by blast
  obtain b where b: "\<not> showModal b" using not_showModal_ex by blast
  have "timing E a = (500, 300, EMPHASIZED E, 150)" using a by (simp add: timing_eq)
  moreover have "timing E b = (150, 150, EMPHASIZED_ACCELERATE E, 150)"
    using b by (simp add: timing_eq)
  ultimately show "{(500, 300, EMPHASIZED E, 150), (150, 150, EMPHASIZED_ACCELERATE E, 150)}
      \<subseteq> range (timing E)"
    by (metis empty_subsetI insert_subset rangeI)
qed

text \<open>
  C2. The derivation has exactly two timing profiles. When the state rendered is modally
  shown (mode Collapsible and open true) the slide lasts 500ms, the content opacity 300ms,
  and the easing is the table's "emphasized"; in every other state the slide lasts 150ms,
  the content opacity 150ms, and the easing is the table's "emphasized-accelerate". The
  scrim's fade is 150ms in all cases, as the constant and on every scrim rendered.
\<close>

theorem timing_profiles:
  "timing E s =
     (if mode s = Collapsible \<and> drawerOpenSignal s
      then (500, 300, EMPHASIZED E, 150)
      else (150, 150, EMPHASIZED_ACCELERATE E, 150))
   \<and> range (timing E) =
       {(500, 300, EMPHASIZED E, 150), (150, 150, EMPHASIZED_ACCELERATE E, 150)}
   \<and> (500::int, 300::int, EMPHASIZED E, 150::int) \<noteq> (150, 150, EMPHASIZED_ACCELERATE E, 150)
   \<and> scrimOpacityDuration = 150
   \<and> (\<forall>a. scrim (fst (render E s)) = Some a \<longrightarrow> duration (keyframeOptions a) = 150)"
proof -
  have a: "timing E s =
     (if mode s = Collapsible \<and> drawerOpenSignal s
      then (500, 300, EMPHASIZED E, 150)
      else (150, 150, EMPHASIZED_ACCELERATE E, 150))"
    by (simp only: mode_open_showModal timing_eq)
  have d: "\<forall>a. scrim (fst (render E s)) = Some a \<longrightarrow> duration (keyframeOptions a) = 150"
    by (auto simp: render_def scrimOpacityDuration_def split: if_splits)
  have e: "(500::int, 300::int, EMPHASIZED E, 150::int) \<noteq> (150, 150, EMPHASIZED_ACCELERATE E, 150)"
    by simp
  have f: "scrimOpacityDuration = 150" by (simp add: scrimOpacityDuration_def)
  from a range_timing [of E] e f d show ?thesis by (intro conjI)
qed

theorem timing_profiles_witness:
  "scrim (fst (render EASING_named
       \<lparr>isCollapsible = True, drawerOpenSignal = True,
        inertContentSignal = False, inertSidebarSignal = False\<rparr>))
     = Some \<lparr>properties = [''opacity''],
             keyframeOptions = \<lparr>duration = 150, easing = ''linear''\<rparr>,
             anim_in = Some fadeIn, anim_out = Some fadeOut\<rparr>
   \<and> timing EASING_named
       \<lparr>isCollapsible = True, drawerOpenSignal = True,
        inertContentSignal = False, inertSidebarSignal = False\<rparr>
     = (500, 300, ''emphasized'', 150)"
  using timing_profiles [where E = EASING_named
      and s = "\<lparr>isCollapsible = True, drawerOpenSignal = True,
                inertContentSignal = False, inertSidebarSignal = False\<rparr>"]
  by (simp add: mode_def EASING_named_def render_def showModal_def scrimOpacityDuration_def)

text \<open>
  C3. In every state the aside's inert flag is (mode Collapsible and not open), and the
  content's inert flag is (scrim shown, or the shared content-inert signal).
\<close>

theorem inert_flags:
  "aside_inert (fst (render E s)) = (mode s = Collapsible \<and> \<not> drawerOpenSignal s)
   \<and> content_inert (fst (render E s))
       = (showScrim (fst (render E s)) \<or> inertContentSignal s)"
  by (simp add: render_def showScrim_def mode_def)

text \<open>
  C4. The classification is a function of the width and the threshold alone: the media
  query matches, and the mode is Collapsible, exactly when the width is at most the
  threshold, Inline otherwise; a width equal to the threshold is Collapsible. The
  component's threshold is the constant 1500, whatever its state: after the first
  measurement, and after every later change notification, the mode is the classification
  of the width against 1500.
\<close>

theorem classify_threshold:
  "matchMedia_max_width t w = (spec_classify w t = Collapsible)
   \<and> spec_classify t t = Collapsible
   \<and> mode (firstUpdated w s) = spec_classify w 1500
   \<and> mode (firstUpdated 1500 s) = Collapsible
   \<and> mode (step (MediaChange (matchMedia_max_width 1500 w)) s) = spec_classify w 1500
   \<and> spec_classify w t = (if w \<le> t then Collapsible else Inline)"
  by (simp add: matchMedia_max_width_def spec_classify_def firstUpdated_def
      onMediaChange_def mode_def)

lemma durations_of_render:
  "durations_of (fst (render E s)) =
     (if showModal s then (500, 300, Some 150) else (150, 150, None))"
  by (simp add: durations_of_def render_def drawerSlideAnimationDuration_def
      drawerContentOpacityDuration_def scrimOpacityDuration_def)

lemma durations_same:
  assumes "mode a = mode b" and "drawerOpenSignal a = drawerOpenSignal b"
  shows "durations_of (fst (render E a)) = durations_of (fst (render E' b))"
proof -
  have "showModal a = showModal b"
    using assms by (simp add: mode_open_showModal [symmetric])
  then show ?thesis by (simp add: durations_of_render)
qed

text \<open>
  C5, as stated, fails: no two transitions that end in the same (mode, open) state, from
  whatever different previous states and by whatever events, get different durations.
\<close>

theorem durations_previous_state_counterexample:
  "\<not> (\<exists>p1 es1 p2 es2.
        p1 \<noteq> p2
        \<and> mode (run es1 p1) = mode (run es2 p2)
        \<and> drawerOpenSignal (run es1 p1) = drawerOpenSignal (run es2 p2)
        \<and> durations_of (fst (render EASING_named (run es1 p1)))
            \<noteq> durations_of (fst (render EASING_named (run es2 p2))))"
  using durations_same by blast

text \<open>
  C5, amended. The durations depend on the state rendered alone: two transitions that end
  in the same (mode, open) state get the same durations, whatever their previous states;
  a transition that ends modally shown gets 500ms and 300ms and a scrim fading in 150ms,
  every other transition gets 150ms and 150ms and no scrim.
\<close>

theorem durations_depend_on_next_state:
  "mode (run es1 p1) = mode (run es2 p2) \<Longrightarrow>
   drawerOpenSignal (run es1 p1) = drawerOpenSignal (run es2 p2) \<Longrightarrow>
   durations_of (fst (render E (run es1 p1))) = durations_of (fst (render E (run es2 p2)))
   \<and> durations_of (fst (render E (run es1 p1))) =
       (if mode (run es1 p1) = Collapsible \<and> drawerOpenSignal (run es1 p1)
        then (500, 300, Some 150) else (150, 150, None))"
proof -
  assume m: "mode (run es1 p1) = mode (run es2 p2)"
    and d: "drawerOpenSignal (run es1 p1) = drawerOpenSignal (run es2 p2)"
  have "durations_of (fst (render E (run es1 p1)))
      = durations_of (fst (render E (run es2 p2)))"
    using m d by (rule durations_same)
  moreover have "durations_of (fst (render E (run es1 p1))) =
       (if mode (run es1 p1) = Collapsible \<and> drawerOpenSignal (run es1 p1)
        then (500, 300, Some 150) else (150, 150, None))"
    by (simp only: mode_open_showModal durations_of_render)
  ultimately show ?thesis by (intro conjI)
qed

theorem durations_depend_on_next_state_witness:
  "\<lparr>isCollapsible = True, drawerOpenSignal = False,
     inertContentSignal = False, inertSidebarSignal = False\<rparr>
     \<noteq> \<lparr>isCollapsible = False, drawerOpenSignal = True,
         inertContentSignal = False, inertSidebarSignal = False\<rparr>
   \<and> mode (run [OpenSignalSet True]
        \<lparr>isCollapsible = True, drawerOpenSignal = False,
         inertContentSignal = False, inertSidebarSignal = False\<rparr>)
     = mode (run [MediaChange True]
        \<lparr>isCollapsible = False, drawerOpenSignal = True,
         inertContentSignal = False, inertSidebarSignal = False\<rparr>)
   \<and> drawerOpenSignal (run [OpenSignalSet True]
        \<lparr>isCollapsible = True, drawerOpenSignal = False,
         inertContentSignal = False, inertSidebarSignal = False\<rparr>)
     = drawerOpenSignal (run [MediaChange True]
        \<lparr>isCollapsible = False, drawerOpenSignal = True,
         inertContentSignal = False, inertSidebarSignal = False\<rparr>)
   \<and> durations_of (fst (render EASING_named (run [OpenSignalSet True]
        \<lparr>isCollapsible = True, drawerOpenSignal = False,
         inertContentSignal = False, inertSidebarSignal = False\<rparr>)))
     = durations_of (fst (render EASING_named (run [MediaChange True]
        \<lparr>isCollapsible = False, drawerOpenSignal = True,
         inertContentSignal = False, inertSidebarSignal = False\<rparr>)))
   \<and> durations_of (fst (render EASING_named (run [MediaChange True]
        \<lparr>isCollapsible = False, drawerOpenSignal = True,
         inertContentSignal = False, inertSidebarSignal = False\<rparr>)))
     = (500, 300, Some 150)"
  using durations_depend_on_next_state [where E = EASING_named
      and ?es1.0 = "[OpenSignalSet True]"
      and ?p1.0 = "\<lparr>isCollapsible = True, drawerOpenSignal = False,
                    inertContentSignal = False, inertSidebarSignal = False\<rparr>"
      and ?es2.0 = "[MediaChange True]"
      and ?p2.0 = "\<lparr>isCollapsible = False, drawerOpenSignal = True,
                    inertContentSignal = False, inertSidebarSignal = False\<rparr>"]
  by (simp add: mode_def onMediaChange_def)

lemma step_inert:
  "inertContentSignal (step e s) = inertContentSignal s
   \<and> inertSidebarSignal (step e s) = inertSidebarSignal s"
  by (cases e) (simp_all add: onScrimClick_def onMediaChange_def)

lemma run_inert:
  "inertContentSignal (run es s) = inertContentSignal s
   \<and> inertSidebarSignal (run es s) = inertSidebarSignal s"
  by (induction es arbitrary: s) (simp_all add: step_inert)

text \<open>
  C6, as stated, fails: with the drawer collapsible and closed, the render computes an
  inert aside, and the shared sidebar signal is still false after it; with the drawer
  collapsible and open, the render computes an inert content, and the shared content
  signal is still false after it.
\<close>

theorem inert_signal_write_counterexample:
  "aside_inert (fst (render EASING_named
       \<lparr>isCollapsible = True, drawerOpenSignal = False,
        inertContentSignal = False, inertSidebarSignal = False\<rparr>))
   \<and> \<not> inertSidebarSignal (snd (render EASING_named
       \<lparr>isCollapsible = True, drawerOpenSignal = False,
        inertContentSignal = False, inertSidebarSignal = False\<rparr>))
   \<and> content_inert (fst (render EASING_named
       \<lparr>isCollapsible = True, drawerOpenSignal = True,
        inertContentSignal = False, inertSidebarSignal = False\<rparr>))
   \<and> \<not> inertContentSignal (snd (render EASING_named
       \<lparr>isCollapsible = True, drawerOpenSignal = True,
        inertContentSignal = False, inertSidebarSignal = False\<rparr>))"
  by (simp add: render_def showModal_def)

text \<open>
  C6, amended. The drawer writes neither shared inert signal: a render leaves the whole
  state as it was and only reads the two signals (the spacer's inert flag is the sidebar
  signal, the content's is the scrim condition or the content signal), the computed
  Collapsible-and-not-open goes to the aside's own inert flag, and no event the drawer
  handles, nor its first measurement, changes either signal.
\<close>

theorem render_reads_inert_signals:
  "snd (render E s) = s
   \<and> spacer_inert (fst (render E s)) = inertSidebarSignal s
   \<and> content_inert (fst (render E s)) = (showModal s \<or> inertContentSignal s)
   \<and> aside_inert (fst (render E s)) = (isCollapsible s \<and> \<not> drawerOpenSignal s)
   \<and> inertSidebarSignal (run es s) = inertSidebarSignal s
   \<and> inertContentSignal (run es s) = inertContentSignal s
   \<and> inertSidebarSignal (firstUpdated w s) = inertSidebarSignal s
   \<and> inertContentSignal (firstUpdated w s) = inertContentSignal s"
  by (simp add: run_inert firstUpdated_def) (simp add: render_def)

text \<open>
  C7, as stated, fails: with the drawer inline and the open signal true, no scrim is
  shown, yet the click's write is not an already-false one: it turns the open signal from
  true to false, and the render after it differs from the render before.
\<close>

theorem scrim_click_inline_open_counterexample:
  "\<not> showScrim (fst (render EASING_named
       \<lparr>isCollapsible = False, drawerOpenSignal = True,
        inertContentSignal = False, inertSidebarSignal = False\<rparr>))
   \<and> drawerOpenSignal
       \<lparr>isCollapsible = False, drawerOpenSignal = True,
        inertContentSignal = False, inertSidebarSignal = False\<rparr>
   \<and> onScrimClick
       \<lparr>isCollapsible = False, drawerOpenSignal = True,
        inertContentSignal = False, inertSidebarSignal = False\<rparr>
     \<noteq> \<lparr>isCollapsible = False, drawerOpenSignal = True,
         inertContentSignal = False, inertSidebarSignal = False\<rparr>
   \<and> body_class (fst (render EASING_named (onScrimClick
       \<lparr>isCollapsible = False, drawerOpenSignal = True,
        inertContentSignal = False, inertSidebarSignal = False\<rparr>)))
     \<noteq> body_class (fst (render EASING_named
       \<lparr>isCollapsible = False, drawerOpenSignal = True,
        inertContentSignal = False, inertSidebarSignal = False\<rparr>))"
  by (simp add: render_def showModal_def showScrim_def onScrimClick_def)

text \<open>
  C7, amended. The scrim click leaves the open signal false and every other part of the
  state as it was, in every state; after it no scrim is shown, so where none was shown
  none is shown; where the open signal was already false it changes nothing, and where
  the open signal was true, modally shown or not, it changes the state.
\<close>

theorem onScrimClick_effect:
  "drawerOpenSignal (onScrimClick s) = False
   \<and> isCollapsible (onScrimClick s) = isCollapsible s
   \<and> inertContentSignal (onScrimClick s) = inertContentSignal s
   \<and> inertSidebarSignal (onScrimClick s) = inertSidebarSignal s
   \<and> showScrim (fst (render E (onScrimClick s))) = False
   \<and> (\<not> drawerOpenSignal s \<longrightarrow> onScrimClick s = s)
   \<and> (drawerOpenSignal s \<longrightarrow> onScrimClick s \<noteq> s)"
proof -
  have "drawerOpenSignal (onScrimClick s) = False" by (simp add: onScrimClick_def)
  then have "drawerOpenSignal s \<longrightarrow> onScrimClick s \<noteq> s" by auto
  then show ?thesis by (simp add: onScrimClick_def showScrim_render showModal_def)
qed

theorem onScrimClick_effect_witness:
  "\<not> drawerOpenSignal
       \<lparr>isCollapsible = True, drawerOpenSignal = False,
        inertContentSignal = False, inertSidebarSignal = False\<rparr>
   \<and> onScrimClick
       \<lparr>isCollapsible = True, drawerOpenSignal = False,
        inertContentSignal = False, inertSidebarSignal = False\<rparr>
     = \<lparr>isCollapsible = True, drawerOpenSignal = False,
         inertContentSignal = False, inertSidebarSignal = False\<rparr>"
  using onScrimClick_effect [where E = EASING_named
      and s = "\<lparr>isCollapsible = True, drawerOpenSignal = False,
                inertContentSignal = False, inertSidebarSignal = False\<rparr>"]
  by simp

lemma run_open_sets:
  "isCollapsible (run (map OpenSignalSet vs) s) = isCollapsible s"
  by (induction vs arbitrary: s) simp_all

text \<open>
  C8. A freshly constructed component is in mode Inline whatever the signals hold, and a
  render before any measurement, also after any writes of the open signal, yields a
  template without a scrim, at the short animation speed.
\<close>

theorem default_inline_before_measurement:
  "isCollapsible (constructed ov cv sv) = False
   \<and> mode (constructed ov cv sv) = Inline
   \<and> showScrim (fst (render E (constructed ov cv sv))) = False
   \<and> scrim (fst (render E (run (map OpenSignalSet vs) (constructed ov cv sv)))) = None
   \<and> data_animation_speed
       (fst (render E (run (map OpenSignalSet vs) (constructed ov cv sv)))) = ''short''"
proof -
  have c: "isCollapsible (constructed ov cv sv) = False"
    by (simp add: constructed_def)
  then have r: "\<not> showModal (run (map OpenSignalSet vs) (constructed ov cv sv))"
    by (simp add: showModal_def run_open_sets)
  have "\<not> showModal (constructed ov cv sv)" using c by (simp add: showModal_def)
  then have "showScrim (fst (render E (constructed ov cv sv))) = False"
    by (simp add: showScrim_render)
  moreover have "mode (constructed ov cv sv) = Inline" using c by (simp add: mode_def)
  moreover have
    "scrim (fst (render E (run (map OpenSignalSet vs) (constructed ov cv sv)))) = None"
    using r by (simp add: render_def)
  moreover have "data_animation_speed
       (fst (render E (run (map OpenSignalSet vs) (constructed ov cv sv)))) = ''short''"
    using r by (simp add: render_def)
  ultimately show ?thesis using c by (intro conjI)
qed

text \<open>
  C9. Writing false to an open signal that is already false changes nothing: the state is
  the same, so a render after the write has the same three inert flags as a render
  before it, and both shared inert signals hold what they held.
\<close>

theorem open_false_write_idempotent:
  "\<not> drawerOpenSignal s \<Longrightarrow>
   step (OpenSignalSet False) s = s
   \<and> aside_inert (fst (render E (step (OpenSignalSet False) s)))
       = aside_inert (fst (render E s))
   \<and> content_inert (fst (render E (step (OpenSignalSet False) s)))
       = content_inert (fst (render E s))
   \<and> spacer_inert (fst (render E (step (OpenSignalSet False) s)))
       = spacer_inert (fst (render E s))
   \<and> inertSidebarSignal (snd (render E (step (OpenSignalSet False) s)))
       = inertSidebarSignal s
   \<and> inertContentSignal (snd (render E (step (OpenSignalSet False) s)))
       = inertContentSignal s"
proof -
  assume "\<not> drawerOpenSignal s"
  then have "step (OpenSignalSet False) s = s" by simp
  then show ?thesis by (simp add: render_state)
qed

theorem open_false_write_idempotent_witness:
  "\<not> drawerOpenSignal
       \<lparr>isCollapsible = True, drawerOpenSignal = False,
        inertContentSignal = False, inertSidebarSignal = False\<rparr>
   \<and> aside_inert (fst (render EASING_named (step (OpenSignalSet False)
       \<lparr>isCollapsible = True, drawerOpenSignal = False,
        inertContentSignal = False, inertSidebarSignal = False\<rparr>)))
     = aside_inert (fst (render EASING_named
       \<lparr>isCollapsible = True, drawerOpenSignal = False,
        inertContentSignal = False, inertSidebarSignal = False\<rparr>))
   \<and> content_inert (fst (render EASING_named (step (OpenSignalSet False)
       \<lparr>isCollapsible = True, drawerOpenSignal = False,
        inertContentSignal = False, inertSidebarSignal = False\<rparr>)))
     = content_inert (fst (render EASING_named
       \<lparr>isCollapsible = True, drawerOpenSignal = False,
        inertContentSignal = False, inertSidebarSignal = False\<rparr>))"
  using open_false_write_idempotent [where E = EASING_named
      and s = "\<lparr>isCollapsible = True, drawerOpenSignal = False,
                inertContentSignal = False, inertSidebarSignal = False\<rparr>"]
  by simp

text \<open>
  C10, as stated, fails: the state with the drawer collapsible and open and the shared
  sidebar signal true is reached from a fresh component by a mode flip and an open-signal
  write; its render shows the scrim while the spacer around the scrim and the aside is
  inert, so the modal drawer is displayed and cannot be focused.
\<close>

theorem modal_drawer_unfocusable_counterexample:
  "run [MediaChange True, OpenSignalSet True] (constructed False False True)
     = \<lparr>isCollapsible = True, drawerOpenSignal = True,
        inertContentSignal = False, inertSidebarSignal = True\<rparr>
   \<and> showScrim (fst (render EASING_named
       \<lparr>isCollapsible = True, drawerOpenSignal = True,
        inertContentSignal = False, inertSidebarSignal = True\<rparr>))
   \<and> spacer_inert (fst (render EASING_named
       \<lparr>isCollapsible = True, drawerOpenSignal = True,
        inertContentSignal = False, inertSidebarSignal = True\<rparr>))
   \<and> panel_unfocusable (fst (render EASING_named
       \<lparr>isCollapsible = True, drawerOpenSignal = True,
        inertContentSignal = False, inertSidebarSignal = True\<rparr>))"
  by (simp add: constructed_def onMediaChange_def render_def showModal_def showScrim_def
      panel_unfocusable_def)

text \<open>
  C10, amended. A shown scrim and the aside's own inert flag exclude each other: in every
  state, if the render shows the scrim (mode Collapsible and open) then the aside's inert
  flag (mode Collapsible and not open) is false. The spacer around both carries the
  shared sidebar signal as its inert flag, so a modal drawer that is shown can be focused
  exactly when that signal is false.
\<close>

theorem scrim_excludes_inert_aside:
  "(showScrim (fst (render E s)) \<longrightarrow> \<not> aside_inert (fst (render E s)))
   \<and> \<not> (showScrim (fst (render E s)) \<and> aside_inert (fst (render E s)))
   \<and> showScrim (fst (render E s)) = (mode s = Collapsible \<and> drawerOpenSignal s)
   \<and> aside_inert (fst (render E s)) = (mode s = Collapsible \<and> \<not> drawerOpenSignal s)
   \<and> spacer_inert (fst (render E s)) = inertSidebarSignal s
   \<and> (showScrim (fst (render E s)) \<longrightarrow>
        panel_unfocusable (fst (render E s)) = inertSidebarSignal s)"
proof -
  have a: "showScrim (fst (render E s)) = (mode s = Collapsible \<and> drawerOpenSignal s)"
    by (simp add: showScrim_render showModal_def mode_def)
  have b: "aside_inert (fst (render E s)) = (mode s = Collapsible \<and> \<not> drawerOpenSignal s)"
    by (simp add: render_def mode_def)
  have c: "spacer_inert (fst (render E s)) = inertSidebarSignal s"
    by (simp add: render_def)
  from a b c show ?thesis
    by (auto simp: panel_unfocusable_def)
qed

theorem scrim_excludes_inert_aside_witness:
  "showScrim (fst (render EASING_named
       \<lparr>isCollapsible = True, drawerOpenSignal = True,
        inertContentSignal = False, inertSidebarSignal = False\<rparr>))
   \<and> \<not> aside_inert (fst (render EASING_named
       \<lparr>isCollapsible = True, drawerOpenSignal = True,
        inertContentSignal = False, inertSidebarSignal = False\<rparr>))
   \<and> \<not> panel_unfocusable (fst (render EASING_named
       \<lparr>isCollapsible = True, drawerOpenSignal = True,
        inertContentSignal = False, inertSidebarSignal = False\<rparr>))"
  using scrim_excludes_inert_aside [where E = EASING_named
      and s = "\<lparr>isCollapsible = True, drawerOpenSignal = True,
                inertContentSignal = False, inertSidebarSignal = False\<rparr>"]
  by (simp add: showScrim_render showModal_def)

end
